theory Spec2Isabelle
  imports Complex_Main "HOL-Library.AList"
begin

section \<open>Values of the Python program\<close>

text \<open>
  The program (\<^verbatim>\<open>src/intuit_mcp_server.py\<close>) handles decoded JSON throughout: the
  OAuth response, the GraphQL response, the REST response and the tool's own result are
  what \<^verbatim>\<open>json.loads\<close> / \<^verbatim>\<open>response.json()\<close> return. A decoded JSON value is
  \<^verbatim>\<open>None\<close>, a \<^verbatim>\<open>bool\<close>, a number, a \<^verbatim>\<open>str\<close>, a \<^verbatim>\<open>list\<close> or a \<^verbatim>\<open>dict\<close> with string
  keys. A dict is an association list in insertion order with distinct keys.
  A number (a Python \<^verbatim>\<open>int\<close> or \<^verbatim>\<open>float\<close>, and the float \<^verbatim>\<open>time.time()\<close>) is the
  \<^typ>\<open>real\<close> number it denotes. Line 105 adds a number read from the OAuth response to
  a float: that sum is rounded and can raise, and it is taken from the Python library
  below.
\<close>

datatype json =
    JNull
  | JBool bool
  | JNum real
  | JStr string
  | JArr "json list"
  | JObj "(string \<times> json) list"

text \<open>
  The Python exception classes the program can meet. The two \<^verbatim>\<open>httpx\<close> classes are the
  ones \<^verbatim>\<open>make_intuit_request\<close> has handlers of their own for; every other exception is
  \<open>Raised cls msg\<close>, where \<open>msg\<close> is \<^verbatim>\<open>str(e)\<close>.
\<close>

datatype py_class =
    Exception | JSONDecodeError | KeyError | IndexError | TypeError | AttributeError
  | ValueError | RecursionError | OverflowError

record response =
  status_code :: nat
  body :: string

datatype exn =
    RequestError string
  | HTTPStatusError response
  | Raised py_class string

subsection \<open>Python operations on decoded JSON\<close>

text \<open>Truthiness (\<^verbatim>\<open>if x:\<close>, \<^verbatim>\<open>all([...])\<close>, \<^verbatim>\<open>x or y\<close>).\<close>

fun truthy :: "json \<Rightarrow> bool" where
  "truthy JNull = False"
| "truthy (JBool b) = b"
| "truthy (JNum r) = (r \<noteq> 0)"
| "truthy (JStr s) = (s \<noteq> [])"
| "truthy (JArr xs) = (xs \<noteq> [])"
| "truthy (JObj kvs) = (kvs \<noteq> [])"

text \<open>An environment variable or module constant that is a \<^verbatim>\<open>str\<close> or \<^verbatim>\<open>None\<close>.\<close>

fun truthy_str :: "string option \<Rightarrow> bool" where
  "truthy_str None = False"
| "truthy_str (Some s) = (s \<noteq> [])"

fun type_name :: "json \<Rightarrow> string" where
  "type_name JNull = ''NoneType''"
| "type_name (JBool b) = ''bool''"
| "type_name (JNum r) = ''number''"
| "type_name (JStr s) = ''str''"
| "type_name (JArr xs) = ''list''"
| "type_name (JObj kvs) = ''dict''"

text \<open>\<^verbatim>\<open>sub in s\<close> on strings: \<open>sub\<close> occurs in \<open>s\<close> as a contiguous run.\<close>

fun starts_with :: "string \<Rightarrow> string \<Rightarrow> bool" where
  "starts_with s [] = True"
| "starts_with [] (p # ps) = False"
| "starts_with (c # cs) (p # ps) = (c = p \<and> starts_with cs ps)"

fun str_contains :: "string \<Rightarrow> string \<Rightarrow> bool" where
  "str_contains [] sub = (sub = [])"
| "str_contains (c # cs) sub = (starts_with (c # cs) sub \<or> str_contains cs sub)"

text \<open>
  \<^verbatim>\<open>k in v\<close> for a string literal \<open>k\<close>: key membership on a dict, element membership on
  a list, substring on a str, \<^verbatim>\<open>TypeError\<close> on \<^verbatim>\<open>None\<close>, a bool or a number.
\<close>

fun py_in :: "string \<Rightarrow> json \<Rightarrow> exn + bool" where
  "py_in k (JObj kvs) = Inr (map_of kvs k \<noteq> None)"
| "py_in k (JArr xs) = Inr (List.member xs (JStr k))"
| "py_in k (JStr s) = Inr (str_contains s k)"
| "py_in k v = Inl (Raised TypeError (''argument of type '' @ type_name v @ '' is not iterable''))"

text \<open>
  \<^verbatim>\<open>v[k]\<close> for a string literal \<open>k\<close>. The message of a \<^verbatim>\<open>KeyError\<close> is the key
  between single quotes; the messages of \<^verbatim>\<open>TypeError\<close> and \<^verbatim>\<open>AttributeError\<close> are
  shortened (Python quotes the type names), and nothing below depends on them.
\<close>

fun py_getitem :: "json \<Rightarrow> string \<Rightarrow> exn + json" where
  "py_getitem (JObj kvs) k =
     (case map_of kvs k of
        None \<Rightarrow> Inl (Raised KeyError ([CHR 0x27] @ k @ [CHR 0x27]))
      | Some x \<Rightarrow> Inr x)"
| "py_getitem (JArr xs) k = Inl (Raised TypeError ''list indices must be integers or slices, not str'')"
| "py_getitem (JStr s) k = Inl (Raised TypeError ''string indices must be integers, not str'')"
| "py_getitem v k = Inl (Raised TypeError (type_name v @ '' object is not subscriptable''))"

text \<open>\<^verbatim>\<open>v[0]\<close>. A decoded JSON dict has string keys only, so \<^verbatim>\<open>d[0]\<close> is a \<^verbatim>\<open>KeyError\<close>.\<close>

fun py_getitem0 :: "json \<Rightarrow> exn + json" where
  "py_getitem0 (JArr []) = Inl (Raised IndexError ''list index out of range'')"
| "py_getitem0 (JArr (x # xs)) = Inr x"
| "py_getitem0 (JStr []) = Inl (Raised IndexError ''string index out of range'')"
| "py_getitem0 (JStr (c # cs)) = Inr (JStr [c])"
| "py_getitem0 (JObj kvs) = Inl (Raised KeyError ''0'')"
| "py_getitem0 v = Inl (Raised TypeError (type_name v @ '' object is not subscriptable''))"

text \<open>
  \<^verbatim>\<open>v[:n]\<close>, used by the program only inside debug prints: what matters is whether it
  raises. A str and a list can be sliced; anything else raises.
\<close>

fun py_slice :: "json \<Rightarrow> nat \<Rightarrow> exn + json" where
  "py_slice (JStr s) n = Inr (JStr (take n s))"
| "py_slice (JArr xs) n = Inr (JArr (take n xs))"
| "py_slice v n = Inl (Raised TypeError (type_name v @ '' object is not subscriptable''))"

text \<open>\<^verbatim>\<open>v.get(k, d)\<close>: a method of dict only.\<close>

fun py_get :: "json \<Rightarrow> string \<Rightarrow> json \<Rightarrow> exn + json" where
  "py_get (JObj kvs) k d = Inr (case map_of kvs k of None \<Rightarrow> d | Some x \<Rightarrow> x)"
| "py_get v k d = Inl (Raised AttributeError (type_name v @ '' object has no attribute get''))"

text \<open>\<^verbatim>\<open>v[k] = x\<close> on a dict: the key keeps its place, a new key goes last.\<close>

fun py_setitem :: "json \<Rightarrow> string \<Rightarrow> json \<Rightarrow> exn + json" where
  "py_setitem (JObj kvs) k x = Inr (JObj (AList.update k x kvs))"
| "py_setitem v k x = Inl (Raised TypeError (type_name v @ '' object does not support item assignment''))"

text \<open>
  \<^verbatim>\<open>s.lower()\<close>, on the bytes of the string: the letters A to Z are mapped, every other
  byte is kept. The program only looks for the ASCII words \<^verbatim>\<open>company\<close> and
  \<^verbatim>\<open>companyname\<close> in the result, and no character outside A to Z lowers to one of their
  letters.
\<close>

definition lower_char :: "char \<Rightarrow> char" where
  "lower_char c =
     (case map_of (zip ''ABCDEFGHIJKLMNOPQRSTUVWXYZ'' ''abcdefghijklmnopqrstuvwxyz'') c of
        None \<Rightarrow> c
      | Some l \<Rightarrow> l)"

fun py_lower :: "json \<Rightarrow> exn + string" where
  "py_lower (JStr s) = Inr (map lower_char s)"
| "py_lower v = Inl (Raised AttributeError (type_name v @ '' object has no attribute lower''))"

text \<open>
  The number a value stands for in arithmetic: a number itself, and a bool as 0 or 1
  (\<^verbatim>\<open>bool\<close> is a subclass of \<^verbatim>\<open>int\<close>).
\<close>

fun py_number :: "json \<Rightarrow> real option" where
  "py_number (JNum r) = Some r"
| "py_number (JBool b) = Some (if b then 1 else 0)"
| "py_number v = None"

text \<open>Decimal digits of a natural number, for \<^verbatim>\<open>f"{status_code}"\<close> and \<^verbatim>\<open>len\<close>.\<close>

definition digit_char :: "nat \<Rightarrow> char" where
  "digit_char d = ''0123456789'' ! d"

function str_nat :: "nat \<Rightarrow> string" where
  "str_nat n =
     (if n < 10 then [digit_char n]
      else str_nat (n div 10) @ [digit_char (n mod 10)])"
  by pat_completeness auto
termination
  by (relation "measure (\<lambda>n. n)") auto

declare str_nat.simps [simp del]

text \<open>
  The library functions the program calls and this development does not define.
  \<^item> \<^verbatim>\<open>json.loads\<close>: the decoded value, or \<open>Inl (cls, msg)\<close> for an exception of class
    \<open>cls\<close> with the message \<open>msg\<close>. Besides \<^verbatim>\<open>JSONDecodeError\<close> for a text that is not
    JSON, \<^verbatim>\<open>json.loads\<close> raises \<^verbatim>\<open>RecursionError\<close> on a deeply nested text and
    \<^verbatim>\<open>ValueError\<close> on an integer literal with too many digits.
  \<^item> \<^verbatim>\<open>json.dumps\<close>.
  \<^item> \<^verbatim>\<open>str\<close> of a decoded value that is not a str.
  \<^item> \<^verbatim>\<open>x + y\<close> for a float \<open>x\<close> and a number \<open>y\<close>: the float that Python computes, which
    is the sum rounded, or \<open>Inl msg\<close> for the \<^verbatim>\<open>OverflowError\<close> of an \<^verbatim>\<open>int\<close> too large to
    convert to a float.
  Every general theorem holds for all of them; concrete runs use a table of documents
  and numbers whose float sum is exact.
\<close>

record pylib =
  json_loads :: "string \<Rightarrow> (py_class \<times> string) + json"
  json_dumps :: "json \<Rightarrow> string"
  py_repr :: "json \<Rightarrow> string"
  float_add :: "real \<Rightarrow> real \<Rightarrow> string + real"

text \<open>
  \<^verbatim>\<open>current_time + v\<close> with a float on the left (line 105): a \<^verbatim>\<open>TypeError\<close> unless \<open>v\<close>
  is a number, and then the float sum of the library.
\<close>

definition py_add :: "pylib \<Rightarrow> real \<Rightarrow> json \<Rightarrow> exn + real" where
  "py_add lib t v =
     (case py_number v of
        None \<Rightarrow> Inl (Raised TypeError (''unsupported operand type(s) for +: float and '' @ type_name v))
      | Some r \<Rightarrow>
          (case float_add lib t r of
             Inl msg \<Rightarrow> Inl (Raised OverflowError msg)
           | Inr e \<Rightarrow> Inr e))"

text \<open>\<^verbatim>\<open>f"{v}"\<close>: a str is inserted as it is.\<close>

definition py_str :: "pylib \<Rightarrow> json \<Rightarrow> string" where
  "py_str lib v = (case v of JStr s \<Rightarrow> s | _ \<Rightarrow> py_repr lib v)"

text \<open>\<^verbatim>\<open>response.json()\<close>: \<^verbatim>\<open>json.loads\<close> of the body, with whatever it raises.\<close>

definition response_json :: "pylib \<Rightarrow> response \<Rightarrow> exn + json" where
  "response_json lib r =
     (case json_loads lib (body r) of
        Inl (cls, msg) \<Rightarrow> Inl (Raised cls msg)
      | Inr v \<Rightarrow> Inr v)"

text \<open>
  \<^verbatim>\<open>response.raise_for_status()\<close>: \<^verbatim>\<open>httpx\<close> raises \<^verbatim>\<open>HTTPStatusError\<close> unless the
  status is a success status, 200 to 299.
\<close>

definition is_success :: "response \<Rightarrow> bool" where
  "is_success r = (200 \<le> status_code r \<and> status_code r \<le> 299)"

section \<open>Configuration, the outside world and the process state\<close>

text \<open>The module constants read from the environment (lines 14 to 18).\<close>

record config =
  INTUIT_CLIENT_ID :: "string option"
  INTUIT_CLIENT_SECRET :: "string option"
  INTUIT_REFRESH_TOKEN :: "string option"
  INTUIT_ENVIRONMENT :: string
  INTUIT_COMPANY_ID :: "string option"

text \<open>\<^verbatim>\<open>all([INTUIT_CLIENT_ID, INTUIT_CLIENT_SECRET, INTUIT_REFRESH_TOKEN])\<close>.\<close>

definition credentials_present :: "config \<Rightarrow> bool" where
  "credentials_present cfg =
     (truthy_str (INTUIT_CLIENT_ID cfg) \<and> truthy_str (INTUIT_CLIENT_SECRET cfg)
      \<and> truthy_str (INTUIT_REFRESH_TOKEN cfg))"

text \<open>\<^verbatim>\<open>f"{x}"\<close> of a str or \<^verbatim>\<open>None\<close>.\<close>

fun fmt_opt :: "string option \<Rightarrow> string" where
  "fmt_opt None = ''None''"
| "fmt_opt (Some s) = s"

definition INTUIT_GRAPHQL_URL :: "config \<Rightarrow> string" where
  "INTUIT_GRAPHQL_URL cfg =
     (if INTUIT_ENVIRONMENT cfg = ''sandbox''
      then ''https://public-e2e.api.intuit.com/2020-04/graphql''
      else ''https://public.api.intuit.com/2020-04/graphql'')"

definition INTUIT_REST_API_URL :: "config \<Rightarrow> string" where
  "INTUIT_REST_API_URL cfg =
     (if INTUIT_ENVIRONMENT cfg = ''sandbox''
      then ''https://sandbox-quickbooks.api.intuit.com/v3/company/'' @ fmt_opt (INTUIT_COMPANY_ID cfg)
      else ''https://quickbooks.api.intuit.com/v3/company/'' @ fmt_opt (INTUIT_COMPANY_ID cfg))"

definition INTUIT_OAUTH_URL :: string where
  "INTUIT_OAUTH_URL = ''https://oauth.platform.intuit.com/oauth2/v1/tokens/bearer''"

text \<open>
  The HTTP requests the program sends. An OAuth request carries its form fields, a
  GraphQL request the bearer token and the JSON payload, a REST request its URL and
  the bearer token.
\<close>

datatype request =
    OAuthPost string "(string \<times> string) list"
  | GraphQLPost string json json
  | RestGet string json

text \<open>What a request meets: a transport failure (\<^verbatim>\<open>httpx.RequestError\<close>) or a response.\<close>

datatype reply = Fails string | Responds response

text \<open>
  The outside world, fixed for a run: \<open>clock w k\<close> is what the \<open>k\<close>-th call of
  \<^verbatim>\<open>time.time()\<close> returns, \<open>net w k rq\<close> what the \<open>k\<close>-th request of the process meets
  when it is \<open>rq\<close>.
\<close>

record world =
  clock :: "nat \<Rightarrow> real"
  net :: "nat \<Rightarrow> request \<Rightarrow> reply"

text \<open>The module-level \<^verbatim>\<open>token_cache\<close> dict (lines 52 to 55); \<open>JNull\<close> is \<^verbatim>\<open>None\<close>.\<close>

record token_cache =
  access_token :: json
  expires_at :: real

definition initial_cache :: token_cache where
  "initial_cache = \<lparr>access_token = JNull, expires_at = 0\<rparr>"

text \<open>
  The state of the process during one sequential run: the cache, how often the clock
  was read, and the requests sent so far, oldest first. Interleaving of concurrent
  tool calls at the \<^verbatim>\<open>await\<close> points is not modelled.
\<close>

record state =
  cache :: token_cache
  clock_reads :: nat
  sent :: "request list"

definition initial_state :: state where
  "initial_state = \<lparr>cache = initial_cache, clock_reads = 0, sent = []\<rparr>"

text \<open>Reading the clock, and sending a request (the reply is the world's).\<close>

definition read_clock :: "world \<Rightarrow> state \<Rightarrow> real \<times> state" where
  "read_clock w s = (clock w (clock_reads s), s\<lparr>clock_reads := Suc (clock_reads s)\<rparr>)"

definition send :: "world \<Rightarrow> request \<Rightarrow> state \<Rightarrow> reply \<times> state" where
  "send w rq s = (net w (length (sent s)) rq, s\<lparr>sent := sent s @ [rq]\<rparr>)"

section \<open>The token provider\<close>

text \<open>
  \<^verbatim>\<open>get_access_token\<close> (lines 57 to 115). The debug prints go to stderr and are left
  out, but the slices inside them are evaluated and can raise (lines 65 and 107).
  The \<^verbatim>\<open>except Exception\<close> of lines 111 to 115 prints and re-raises, so every exception
  of the \<^verbatim>\<open>try\<close> body leaves the function as it is. The state that is returned shows
  what was written to the cache before an exception.
\<close>

definition oauth_request :: "config \<Rightarrow> request" where
  "oauth_request cfg =
     OAuthPost INTUIT_OAUTH_URL
       [(''grant_type'', ''refresh_token''),
        (''refresh_token'', fmt_opt (INTUIT_REFRESH_TOKEN cfg)),
        (''client_id'', fmt_opt (INTUIT_CLIENT_ID cfg)),
        (''client_secret'', fmt_opt (INTUIT_CLIENT_SECRET cfg))]"

text \<open>Lines 103 to 110: the response passed \<^verbatim>\<open>raise_for_status\<close>.\<close>

definition store_token :: "pylib \<Rightarrow> real \<Rightarrow> response \<Rightarrow> state \<Rightarrow> (exn + json) \<times> state" where
  "store_token lib current_time r s =
     (case response_json lib r of
        Inl e \<Rightarrow> (Inl e, s)
      | Inr token_data \<Rightarrow>
          (case py_getitem token_data ''access_token'' of
             Inl e \<Rightarrow> (Inl e, s)
           | Inr tok \<Rightarrow>
               let s1 = s\<lparr>cache := (cache s)\<lparr>access_token := tok\<rparr>\<rparr> in
               (case py_getitem token_data ''expires_in'' of
                  Inl e \<Rightarrow> (Inl e, s1)
                | Inr expires_in \<Rightarrow>
                    (case py_add lib current_time expires_in of
                       Inl e \<Rightarrow> (Inl e, s1)
                     | Inr t \<Rightarrow>
                         let s2 = s1\<lparr>cache := (cache s1)\<lparr>expires_at := t\<rparr>\<rparr> in
                         (case py_slice tok 10 of
                            Inl e \<Rightarrow> (Inl e, s2)
                          | Inr _ \<Rightarrow> (Inr tok, s2))))))"

definition cache_valid :: "token_cache \<Rightarrow> real \<Rightarrow> bool" where
  "cache_valid c current_time = (truthy (access_token c) \<and> expires_at c > current_time + 60)"

definition get_access_token :: "config \<Rightarrow> pylib \<Rightarrow> world \<Rightarrow> state \<Rightarrow> (exn + json) \<times> state" where
  "get_access_token cfg lib w s =
     (let (current_time, s0) = read_clock w s in
      if cache_valid (cache s0) current_time then
        (case py_slice (access_token (cache s0)) 10 of
           Inl e \<Rightarrow> (Inl e, s0)
         | Inr _ \<Rightarrow> (Inr (access_token (cache s0)), s0))
      else if \<not> credentials_present cfg then
        (Inl (Raised Exception ''Missing required Intuit OAuth credentials''), s0)
      else
        (case send w (oauth_request cfg) s0 of
           (Fails msg, s1) \<Rightarrow> (Inl (RequestError msg), s1)
         | (Responds r, s1) \<Rightarrow>
             if \<not> is_success r then (Inl (HTTPStatusError r), s1)
             else store_token lib current_time r s1))"

section \<open>The API client\<close>

text \<open>The error envelope \<^verbatim>\<open>{"errors": [{"message": msg}]}\<close>.\<close>

definition envelope :: "string \<Rightarrow> json" where
  "envelope msg = JObj [(''errors'', JArr [JObj [(''message'', JStr msg)]])]"

text \<open>
  \<^verbatim>\<open>if "realmId" not in d: d["realmId"] = INTUIT_COMPANY_ID\<close> (lines 138 to 139 and
  340 to 341), for a company identifier that is set.
\<close>

definition add_realm :: "string \<Rightarrow> json \<Rightarrow> exn + json" where
  "add_realm cid d =
     (case py_in ''realmId'' d of
        Inl e \<Rightarrow> Inl e
      | Inr True \<Rightarrow> Inr d
      | Inr False \<Rightarrow> py_setitem d ''realmId'' (JStr cid))"

text \<open>
  Lines 133 to 139: the payload. \<^verbatim>\<open>"variables" in payload\<close> holds exactly when
  \<^verbatim>\<open>variables\<close> was truthy, and \<^verbatim>\<open>payload["variables"]\<close> is then that value.
\<close>

definition build_payload :: "config \<Rightarrow> json \<Rightarrow> json \<Rightarrow> exn + json" where
  "build_payload cfg query variables =
     (if truthy variables then
        (if truthy_str (INTUIT_COMPANY_ID cfg) then
           (case add_realm (fmt_opt (INTUIT_COMPANY_ID cfg)) variables of
              Inl e \<Rightarrow> Inl e
            | Inr vs \<Rightarrow> Inr (JObj [(''query'', query), (''variables'', vs)]))
         else Inr (JObj [(''query'', query), (''variables'', variables)]))
      else Inr (JObj [(''query'', query)]))"

text \<open>
  The \<^verbatim>\<open>try\<close> body of \<^verbatim>\<open>make_intuit_request\<close> (lines 123 to 161). \<open>Inl e\<close> is
  the exception that reaches the \<^verbatim>\<open>except\<close> clauses. The debug print of line 142
  slices the query before the request is sent.
\<close>

definition graphql_call ::
  "config \<Rightarrow> pylib \<Rightarrow> world \<Rightarrow> json \<Rightarrow> json \<Rightarrow> state \<Rightarrow> (exn + json) \<times> state" where
  "graphql_call cfg lib w query variables s =
     (case get_access_token cfg lib w s of
        (Inl e, s1) \<Rightarrow> (Inl e, s1)
      | (Inr token, s1) \<Rightarrow>
          (case build_payload cfg query variables of
             Inl e \<Rightarrow> (Inl e, s1)
           | Inr payload \<Rightarrow>
               (case py_slice query 100 of
                  Inl e \<Rightarrow> (Inl e, s1)
                | Inr _ \<Rightarrow>
                    (case send w (GraphQLPost (INTUIT_GRAPHQL_URL cfg) token payload) s1 of
                       (Fails msg, s2) \<Rightarrow> (Inl (RequestError msg), s2)
                     | (Responds r, s2) \<Rightarrow>
                         if \<not> is_success r then (Inl (HTTPStatusError r), s2)
                         else
                           (case response_json lib r of
                              Inl e \<Rightarrow> (Inl e, s2)
                            | Inr result \<Rightarrow>
                                (case py_in ''errors'' result of
                                   Inl e \<Rightarrow> (Inl e, s2)
                                 | Inr _ \<Rightarrow> (Inr result, s2)))))))"

text \<open>
  The handler of \<^verbatim>\<open>httpx.HTTPStatusError\<close> (lines 165 to 180). Its inner \<^verbatim>\<open>try\<close>
  catches \<^verbatim>\<open>json.JSONDecodeError\<close> only, so any other exception of
  \<^verbatim>\<open>e.response.json()\<close> is raised like the ones of the lines below it. \<open>Inl e\<close> is an
  exception raised inside the handler: Python does not offer it to the other
  \<^verbatim>\<open>except\<close> clauses of the same \<^verbatim>\<open>try\<close> statement, so it leaves
  \<^verbatim>\<open>make_intuit_request\<close>.
\<close>

definition status_error_detail :: "pylib \<Rightarrow> response \<Rightarrow> exn + string" where
  "status_error_detail lib r =
     (let error_detail = ''HTTP Status Error: '' @ str_nat (status_code r);
          raw = error_detail @ '' - Response: '' @ take 200 (body r) in
      case json_loads lib (body r) of
        Inl (cls, msg) \<Rightarrow> if cls = JSONDecodeError then Inr raw else Inl (Raised cls msg)
      | Inr err_resp \<Rightarrow>
          (case py_in ''errors'' err_resp of
             Inl e \<Rightarrow> Inl e
           | Inr True \<Rightarrow>
               (case py_getitem err_resp ''errors'' of
                  Inl e \<Rightarrow> Inl e
                | Inr errs \<Rightarrow>
                    (case py_getitem0 errs of
                       Inl e \<Rightarrow> Inl e
                     | Inr first \<Rightarrow>
                         (case py_getitem first ''message'' of
                            Inl e \<Rightarrow> Inl e
                          | Inr m \<Rightarrow> Inr (error_detail @ '' - '' @ py_str lib m))))
           | Inr False \<Rightarrow>
               (case py_in ''error'' err_resp of
                  Inl e \<Rightarrow> Inl e
                | Inr False \<Rightarrow> Inr raw
                | Inr True \<Rightarrow>
                    (case py_getitem err_resp ''error'' of
                       Inl e \<Rightarrow> Inl e
                     | Inr er \<Rightarrow>
                         (case py_in ''message'' er of
                            Inl e \<Rightarrow> Inl e
                          | Inr False \<Rightarrow> Inr raw
                          | Inr True \<Rightarrow>
                              (case py_getitem er ''message'' of
                                 Inl e \<Rightarrow> Inl e
                               | Inr m \<Rightarrow> Inr (error_detail @ '' - '' @ py_str lib m)))))))"

text \<open>
  \<^verbatim>\<open>make_intuit_request\<close> (lines 117 to 183): the \<^verbatim>\<open>try\<close> body and its three
  \<^verbatim>\<open>except\<close> clauses, in the order of the source. \<open>Inl e\<close> is an exception that
  leaves the function.
\<close>

definition make_intuit_request ::
  "config \<Rightarrow> pylib \<Rightarrow> world \<Rightarrow> json \<Rightarrow> json \<Rightarrow> state \<Rightarrow> (exn + json) \<times> state" where
  "make_intuit_request cfg lib w query variables s =
     (case graphql_call cfg lib w query variables s of
        (Inr result, s1) \<Rightarrow> (Inr result, s1)
      | (Inl (RequestError msg), s1) \<Rightarrow>
          (Inr (envelope (''HTTP Request Error connecting to Intuit: '' @ msg)), s1)
      | (Inl (HTTPStatusError r), s1) \<Rightarrow>
          (case status_error_detail lib r of
             Inl e \<Rightarrow> (Inl e, s1)
           | Inr error_detail \<Rightarrow> (Inr (envelope error_detail), s1))
      | (Inl (Raised cls msg), s1) \<Rightarrow>
          (Inr (envelope (''An unexpected error occurred: '' @ msg)), s1))"

section \<open>The tool entry point\<close>

text \<open>The \<^verbatim>\<open>variables\<close> argument of the tool: a dict with string keys, or \<^verbatim>\<open>None\<close>.\<close>

fun py_arg :: "(string \<times> json) list option \<Rightarrow> json" where
  "py_arg None = JNull"
| "py_arg (Some kvs) = JObj kvs"

text \<open>\<^verbatim>\<open>x or {}\<close>.\<close>

definition or_empty_dict :: "json \<Rightarrow> json" where
  "or_empty_dict x = (if truthy x then x else JObj [])"

text \<open>
  Lines 320 to 337: \<open>processed_variables\<close> comes in as line 321 left it and the
  pair \<open>(processed_query, processed_variables)\<close> goes out. The test
  \<^verbatim>\<open>processed_variables is None\<close> of line 329 is kept as the source has it. Line 334
  catches \<^verbatim>\<open>json.JSONDecodeError\<close> only: any other exception of \<^verbatim>\<open>json.loads\<close> is
  \<open>Inl e\<close> and leaves the tool.
\<close>

definition normalize_query :: "pylib \<Rightarrow> string \<Rightarrow> json \<Rightarrow> exn + (json \<times> json)" where
  "normalize_query lib query processed_variables =
     (case json_loads lib query of
        Inl (cls, msg) \<Rightarrow>
          if cls = JSONDecodeError then Inr (JStr query, processed_variables)
          else Inl (Raised cls msg)
      | Inr query_json \<Rightarrow>
          (case query_json of
             JObj kvs \<Rightarrow>
               (case map_of kvs ''query'' of
                  None \<Rightarrow> Inr (JStr query, processed_variables)
                | Some q \<Rightarrow>
                    (case map_of kvs ''variables'' of
                       None \<Rightarrow> Inr (q, processed_variables)
                     | Some vs \<Rightarrow>
                         if processed_variables = JNull then Inr (q, vs)
                         else Inr (q, processed_variables)))
           | _ \<Rightarrow> Inr (JStr query, processed_variables)))"

text \<open>Lines 339 to 341.\<close>

definition inject_realm :: "config \<Rightarrow> json \<Rightarrow> exn + json" where
  "inject_realm cfg processed_variables =
     (if truthy_str (INTUIT_COMPANY_ID cfg)
      then add_realm (fmt_opt (INTUIT_COMPANY_ID cfg)) processed_variables
      else Inr processed_variables)"

text \<open>\<^verbatim>\<open>rest_result.get("CompanyInfo", {}).get(k)\<close>.\<close>

definition company_field :: "json \<Rightarrow> string \<Rightarrow> exn + json" where
  "company_field rest_result k =
     (case py_get rest_result ''CompanyInfo'' (JObj []) of
        Inl e \<Rightarrow> Inl e
      | Inr info \<Rightarrow> py_get info k JNull)"

text \<open>Lines 369 to 378: the object that replaces the result.\<close>

definition rest_mapped :: "json \<Rightarrow> exn + json" where
  "rest_mapped rest_result =
     (case company_field rest_result ''CompanyName'' of
        Inl e \<Rightarrow> Inl e
      | Inr company_name \<Rightarrow>
          (case company_field rest_result ''LegalName'' of
             Inl e \<Rightarrow> Inl e
           | Inr legal_name \<Rightarrow>
               (case company_field rest_result ''CompanyAddr'' of
                  Inl e \<Rightarrow> Inl e
                | Inr company_addr \<Rightarrow>
                    Inr (JObj [(''data'', JObj [(''company'', JObj
                      [(''companyName'', company_name),
                       (''legalName'', legal_name),
                       (''companyAddr'', company_addr),
                       (''note'', JStr ''This data was retrieved using REST API fallback'')])])]))))"

definition rest_url :: "config \<Rightarrow> string" where
  "rest_url cfg = INTUIT_REST_API_URL cfg @ ''/companyinfo/'' @ fmt_opt (INTUIT_COMPANY_ID cfg)"

text \<open>
  Lines 353 to 380: the \<^verbatim>\<open>try\<close> of the REST fallback. Every exception is caught and
  printed; \<open>result\<close> is assigned only when the whole object was built.
\<close>

definition rest_fallback :: "config \<Rightarrow> pylib \<Rightarrow> world \<Rightarrow> json \<Rightarrow> state \<Rightarrow> json \<times> state" where
  "rest_fallback cfg lib w result s =
     (case get_access_token cfg lib w s of
        (Inl e, s1) \<Rightarrow> (result, s1)
      | (Inr token, s1) \<Rightarrow>
          (case send w (RestGet (rest_url cfg) token) s1 of
             (Fails msg, s2) \<Rightarrow> (result, s2)
           | (Responds r, s2) \<Rightarrow>
               if status_code r = 200 then
                 (case response_json lib r of
                    Inl e \<Rightarrow> (result, s2)
                  | Inr rest_result \<Rightarrow>
                      (case rest_mapped rest_result of
                         Inl e \<Rightarrow> (result, s2)
                       | Inr mapped \<Rightarrow> (mapped, s2)))
               else (result, s2)))"

text \<open>
  \<^verbatim>\<open>intuit_execute_graphql\<close> (lines 186 and 316 to 383). \<open>Inl e\<close> is an exception
  that leaves the tool; \<open>Inr str\<close> is the returned string.
\<close>

definition intuit_execute_graphql ::
  "config \<Rightarrow> pylib \<Rightarrow> world \<Rightarrow> string \<Rightarrow> (string \<times> json) list option \<Rightarrow> state
     \<Rightarrow> (exn + string) \<times> state" where
  "intuit_execute_graphql cfg lib w query variables s =
     (case normalize_query lib query (or_empty_dict (py_arg variables)) of
        Inl e \<Rightarrow> (Inl e, s)
      | Inr (processed_query, pv) \<Rightarrow>
          (case inject_realm cfg pv of
             Inl e \<Rightarrow> (Inl e, s)
           | Inr processed_variables \<Rightarrow>
               (case make_intuit_request cfg lib w processed_query processed_variables s of
                  (Inl e, s1) \<Rightarrow> (Inl e, s1)
                | (Inr result, s1) \<Rightarrow>
                    (case py_in ''errors'' result of
                       Inl e \<Rightarrow> (Inl e, s1)
                     | Inr has_errors \<Rightarrow>
                         if has_errors \<and> truthy_str (INTUIT_COMPANY_ID cfg) then
                           (case py_lower processed_query of
                              Inl e \<Rightarrow> (Inl e, s1)
                            | Inr lowered \<Rightarrow>
                                if str_contains lowered ''company''
                                   \<and> str_contains lowered ''companyname''
                                then
                                  (case rest_fallback cfg lib w result s1 of
                                     (final, s2) \<Rightarrow> (Inr (json_dumps lib final), s2))
                                else (Inr (json_dumps lib result), s1))
                         else (Inr (json_dumps lib result), s1)))))"

section \<open>Start of the process\<close>

text \<open>
  The module-level statements (lines 14 to 49) and the \<^verbatim>\<open>__main__\<close> block (lines 385 to
  396). The configuration is what \<^verbatim>\<open>os.getenv\<close> returned: \<open>None\<close> for a variable that
  is unset. The debug prints of lines 21 to 23 slice the three credentials before
  anything else looks at them.
\<close>

datatype out_line = Stdout string | Stderr string

datatype startup_result =
    Crashed exn
  | Loaded
  | Refused
  | Served

text \<open>One of the lines 21 to 23.\<close>

fun debug_line :: "string \<Rightarrow> string option \<Rightarrow> exn + out_line" where
  "debug_line label None = Inl (Raised TypeError ''NoneType object is not subscriptable'')"
| "debug_line label (Some v) =
     Inr (Stderr (''Debug - '' @ label @ '': '' @ take 5 v @ ''... (length: ''
            @ (if v \<noteq> [] then str_nat (length v) else ''0'') @ '')''))"

definition credentials_error :: out_line where
  "credentials_error = Stderr ''ERROR: Intuit credentials not found in .env file or environment variables.''"

definition fatal_error :: out_line where
  "fatal_error = Stderr ''FATAL: Cannot start server, Intuit credentials missing.''"

text \<open>Lines 21 to 49; \<open>Some e\<close> is an exception that ends the process.\<close>

definition module_level :: "config \<Rightarrow> out_line list \<times> exn option" where
  "module_level cfg =
     (case debug_line ''Client ID'' (INTUIT_CLIENT_ID cfg) of
        Inl e \<Rightarrow> ([], Some e)
      | Inr l1 \<Rightarrow>
          (case debug_line ''Client Secret'' (INTUIT_CLIENT_SECRET cfg) of
             Inl e \<Rightarrow> ([l1], Some e)
           | Inr l2 \<Rightarrow>
               (case debug_line ''Refresh Token'' (INTUIT_REFRESH_TOKEN cfg) of
                  Inl e \<Rightarrow> ([l1, l2], Some e)
                | Inr l3 \<Rightarrow>
                    ([l1, l2, l3,
                      Stderr (''Debug - Environment: '' @ INTUIT_ENVIRONMENT cfg),
                      Stderr (''Debug - Company ID: '' @ fmt_opt (INTUIT_COMPANY_ID cfg))]
                     @ (if \<not> credentials_present cfg then [credentials_error] else [])
                     @ [Stdout ''Intuit MCP Server initialized.''], None))))"

text \<open>
  The whole start: \<open>is_main\<close> says whether the file runs as \<^verbatim>\<open>__main__\<close>. \<open>Served\<close>
  means \<^verbatim>\<open>mcp.run\<close> was called, \<open>Refused\<close> that the \<^verbatim>\<open>__main__\<close> block printed its
  fatal error instead, \<open>Loaded\<close> that the module was imported by another program.
\<close>

definition startup :: "config \<Rightarrow> bool \<Rightarrow> out_line list \<times> startup_result" where
  "startup cfg is_main =
     (case module_level cfg of
        (out, Some e) \<Rightarrow> (out, Crashed e)
      | (out, None) \<Rightarrow>
          if \<not> is_main then (out, Loaded)
          else if \<not> credentials_present cfg then
            (out @ [Stdout ''Attempting to run Intuit MCP server via stdio...'', fatal_error], Refused)
          else
            (out @ [Stdout ''Attempting to run Intuit MCP server via stdio...'',
                    Stderr (''Configured for Intuit Environment: '' @ INTUIT_ENVIRONMENT cfg)], Served))"

section \<open>Concrete runs\<close>

text \<open>
  A library whose \<^verbatim>\<open>json.loads\<close> knows a table of documents (any other text is not
  JSON), whose \<^verbatim>\<open>json.dumps\<close> reads the table backwards and whose float sum is the
  exact sum (the runs below add whole numbers of seconds far below 2 to the power 53, which
  floats add exactly), and a world whose replies depend on the kind of request only.
  They give the theorems below inputs to run on.
\<close>

definition docs_lib :: "(string \<times> json) list \<Rightarrow> pylib" where
  "docs_lib docs =
     \<lparr>json_loads = (\<lambda>s. case map_of docs s of
                           None \<Rightarrow> Inl (JSONDecodeError, ''Expecting value'')
                         | Some v \<Rightarrow> Inr v),
      json_dumps = (\<lambda>v. case find (\<lambda>p. snd p = v) docs of None \<Rightarrow> ''?'' | Some p \<Rightarrow> fst p),
      py_repr = type_name,
      float_add = (\<lambda>x y. Inr (x + y))\<rparr>"

definition scripted :: "reply \<Rightarrow> reply \<Rightarrow> reply \<Rightarrow> world" where
  "scripted oauth graphql rest =
     \<lparr>clock = (\<lambda>k. 1700000000),
      net = (\<lambda>k rq. case rq of
               OAuthPost url form \<Rightarrow> oauth
             | GraphQLPost url token payload \<Rightarrow> graphql
             | RestGet url token \<Rightarrow> rest)\<rparr>"

definition replies :: "nat \<Rightarrow> string \<Rightarrow> reply" where
  "replies code doc = Responds \<lparr>status_code = code, body = doc\<rparr>"

definition demo_cfg :: config where
  "demo_cfg =
     \<lparr>INTUIT_CLIENT_ID = Some ''ABclientid'',
      INTUIT_CLIENT_SECRET = Some ''secret'',
      INTUIT_REFRESH_TOKEN = Some ''refresh'',
      INTUIT_ENVIRONMENT = ''sandbox'',
      INTUIT_COMPANY_ID = Some ''4620816365''\<rparr>"

text \<open>No variable of the environment is set but the default of the environment selector.\<close>

definition unset_cfg :: config where
  "unset_cfg =
     \<lparr>INTUIT_CLIENT_ID = None, INTUIT_CLIENT_SECRET = None, INTUIT_REFRESH_TOKEN = None,
      INTUIT_ENVIRONMENT = ''sandbox'', INTUIT_COMPANY_ID = None\<rparr>"


definition token_doc :: string where
  \<open>token_doc = ''{"access_token": "tokA", "expires_in": 3600}''\<close>

definition short_token_doc :: string where
  \<open>short_token_doc = ''{"access_token": "tokS", "expires_in": 30}''\<close>

definition partial_token_doc :: string where
  \<open>partial_token_doc = ''{"access_token": "tokB"}''\<close>

definition bad_field_doc :: string where
  \<open>bad_field_doc = ''{"errors":[{"message":"Bad field"}]}''\<close>

definition empty_errors_doc :: string where
  \<open>empty_errors_doc = ''{"errors": []}''\<close>

definition no_message_doc :: string where
  \<open>no_message_doc = ''{"errors": [{"code": "INVALID"}]}''\<close>

definition data_doc :: string where
  \<open>data_doc = ''{"data": {"customers": []}}''\<close>

definition company_query :: string where
  "company_query = ''query { company { companyName } }''"

definition wrapped_query_doc :: string where
  \<open>wrapped_query_doc =
     ''{"query": "query { company { companyName } }", "variables": {"first": 5}}''\<close>

definition wrapped_realm_doc :: string where
  \<open>wrapped_realm_doc =
     ''{"query": "query { customers }", "variables": {"realmId": "theirs", "first": 5}}''\<close>

definition numeric_query_doc :: string where
  \<open>numeric_query_doc = ''{"query": 5}''\<close>

definition company_info_doc :: string where
  \<open>company_info_doc =
     ''{"CompanyInfo": {"CompanyName": "Acme", "LegalName": "Acme Corp", "CompanyAddr": {"City": "Reno"}}}''\<close>

definition acme :: json where
  "acme =
     JObj [(''data'', JObj [(''company'', JObj
       [(''companyName'', JStr ''Acme''),
        (''legalName'', JStr ''Acme Corp''),
        (''companyAddr'', JObj [(''City'', JStr ''Reno'')]),
        (''note'', JStr ''This data was retrieved using REST API fallback'')])])]"

definition acme_doc :: string where
  \<open>acme_doc =
     ''{"data": {"company": {"companyName": "Acme", "legalName": "Acme Corp", "companyAddr": {"City": "Reno"}, "note": "This data was retrieved using REST API fallback"}}}''\<close>

definition demo_docs :: "(string \<times> json) list" where
  "demo_docs =
     [(token_doc, JObj [(''access_token'', JStr ''tokA''), (''expires_in'', JNum 3600)]),
      (short_token_doc, JObj [(''access_token'', JStr ''tokS''), (''expires_in'', JNum 30)]),
      (partial_token_doc, JObj [(''access_token'', JStr ''tokB'')]),
      (bad_field_doc, JObj [(''errors'', JArr [JObj [(''message'', JStr ''Bad field'')]])]),
      (empty_errors_doc, JObj [(''errors'', JArr [])]),
      (no_message_doc, JObj [(''errors'', JArr [JObj [(''code'', JStr ''INVALID'')]])]),
      (data_doc, JObj [(''data'', JObj [(''customers'', JArr [])])]),
      (wrapped_query_doc,
         JObj [(''query'', JStr company_query), (''variables'', JObj [(''first'', JNum 5)])]),
      (wrapped_realm_doc,
         JObj [(''query'', JStr ''query { customers }''),
               (''variables'', JObj [(''realmId'', JStr ''theirs''), (''first'', JNum 5)])]),
      (numeric_query_doc, JObj [(''query'', JNum 5)]),
      (company_info_doc,
         JObj [(''CompanyInfo'', JObj [(''CompanyName'', JStr ''Acme''),
                                       (''LegalName'', JStr ''Acme Corp''),
                                       (''CompanyAddr'', JObj [(''City'', JStr ''Reno'')])])]),
      (acme_doc, acme)]"

definition demo_lib :: pylib where
  "demo_lib = docs_lib demo_docs"


definition stale_state :: state where
  "stale_state =
     \<lparr>cache = \<lparr>access_token = JStr ''tokA'', expires_at = 1700000030\<rparr>,
      clock_reads = 1, sent = [oauth_request demo_cfg]\<rparr>"

section \<open>Observations on a run\<close>

text \<open>The payloads of the GraphQL requests among the requests sent, oldest first.\<close>

fun graphql_payloads :: "request list \<Rightarrow> json list" where
  "graphql_payloads [] = []"
| "graphql_payloads (GraphQLPost url token payload # rs) = payload # graphql_payloads rs"
| "graphql_payloads (rq # rs) = graphql_payloads rs"

text \<open>The entries of the \<^verbatim>\<open>variables\<close> argument; \<^verbatim>\<open>None\<close> has none.\<close>

definition caller_variables :: "(string \<times> json) list option \<Rightarrow> (string \<times> json) list" where
  "caller_variables variables = (case variables of None \<Rightarrow> [] | Some kvs \<Rightarrow> kvs)"

text \<open>A dict with the company identifier under \<^verbatim>\<open>realmId\<close>, unless it has that key already.\<close>

definition with_realm :: "string \<Rightarrow> (string \<times> json) list \<Rightarrow> (string \<times> json) list" where
  "with_realm cid kvs =
     (if map_of kvs ''realmId'' \<noteq> None then kvs else AList.update ''realmId'' (JStr cid) kvs)"

text \<open>
  The object the specification has the REST fallback return, written from its words
  and not from the code: company name, legal name and address as the \<^verbatim>\<open>CompanyInfo\<close>
  entries \<open>info\<close> of the REST response give them (\<^verbatim>\<open>None\<close> for an entry that is not
  there), and the note.
\<close>

definition field_or_null :: "(string \<times> json) list \<Rightarrow> string \<Rightarrow> json" where
  "field_or_null info k = (case map_of info k of None \<Rightarrow> JNull | Some v \<Rightarrow> v)"

definition company_object :: "(string \<times> json) list \<Rightarrow> json" where
  "company_object info =
     JObj [(''data'', JObj [(''company'', JObj
       [(''companyName'', field_or_null info ''CompanyName''),
        (''legalName'', field_or_null info ''LegalName''),
        (''companyAddr'', field_or_null info ''CompanyAddr''),
        (''note'', JStr ''This data was retrieved using REST API fallback'')])])]"

text \<open>
  The state after the token exchange and a GraphQL request for the company name, with
  the company identifier injected.
\<close>

definition after_graphql :: state where
  "after_graphql =
     \<lparr>cache = \<lparr>access_token = JStr ''tokA'', expires_at = 1700003600\<rparr>,
      clock_reads = 1,
      sent = [oauth_request demo_cfg,
              GraphQLPost (INTUIT_GRAPHQL_URL demo_cfg) (JStr ''tokA'')
                (JObj [(''query'', JStr company_query),
                       (''variables'', JObj [(''realmId'', JStr ''4620816365'')])])]\<rparr>"

section \<open>The token provider: cache and refresh\<close>

lemma store_token_frame:
  "sent (snd (store_token lib t r s)) = sent s
   \<and> clock_reads (snd (store_token lib t r s)) = clock_reads s"
  by (simp add: store_token_def Let_def split: sum.splits)











text \<open>
  Claim C5 at a failing input. The cached token expires in 30 seconds, so the call
  refreshes; the OAuth endpoint answers 200 with \<^verbatim>\<open>{"access_token": "tokB"}\<close> and no
  \<^verbatim>\<open>expires_in\<close>. Line 104 has stored the new token when line 105 raises
  \<^verbatim>\<open>KeyError\<close>: the exchange fails, and the cache holds the new token together with the
  expiry of the old one.
\<close>

theorem failed_exchange_updates_access_token_only:
  "get_access_token demo_cfg demo_lib
     (scripted (replies 200 partial_token_doc) (Fails ''down'') (Fails ''down'')) stale_state
     = (Inl (Raised KeyError ([CHR 0x27] @ ''expires_in'' @ [CHR 0x27])),
        \<lparr>cache = \<lparr>access_token = JStr ''tokB'', expires_at = 1700000030\<rparr>,
         clock_reads = 2, sent = [oauth_request demo_cfg, oauth_request demo_cfg]\<rparr>)"
  by code_simp

section \<open>The API client: what leaves \<^verbatim>\<open>make_intuit_request\<close>\<close>

text \<open>
  A transport failure and every exception of a class without a handler of its own,
  raised in the \<^verbatim>\<open>try\<close> body, come back as the error envelope. The only exceptions
  that leave the function are the ones raised inside the handler of
  \<^verbatim>\<open>httpx.HTTPStatusError\<close>.
\<close>

lemma make_intuit_request_transport_failure:
  assumes "fst (graphql_call cfg lib w query variables s) = Inl (RequestError msg)"
  shows "fst (make_intuit_request cfg lib w query variables s)
           = Inr (envelope (''HTTP Request Error connecting to Intuit: '' @ msg))"
  using assms
  by (auto simp add: make_intuit_request_def split: prod.splits sum.splits exn.splits)

lemma make_intuit_request_unexpected_failure:
  assumes "fst (graphql_call cfg lib w query variables s) = Inl (Raised cls msg)"
  shows "fst (make_intuit_request cfg lib w query variables s)
           = Inr (envelope (''An unexpected error occurred: '' @ msg))"
  using assms
  by (auto simp add: make_intuit_request_def split: prod.splits sum.splits exn.splits)

lemma make_intuit_request_raises_only_in_status_handler:
  assumes "fst (make_intuit_request cfg lib w query variables s) = Inl e"
  shows "\<exists>r. fst (graphql_call cfg lib w query variables s) = Inl (HTTPStatusError r)
           \<and> status_error_detail lib r = Inl e"
  using assms
  by (auto simp add: make_intuit_request_def split: prod.splits sum.splits exn.splits)

text \<open>
  The scenario of the specification: HTTP 400 with the body
  \<^verbatim>\<open>{"errors":[{"message":"Bad field"}]}\<close> comes back as an envelope whose message
  ends in \<^verbatim>\<open>Bad field\<close>.
\<close>

lemma bad_field_is_reported:
  "fst (make_intuit_request demo_cfg demo_lib
          (scripted (replies 200 token_doc) (replies 400 bad_field_doc) (Fails ''down''))
          (JStr company_query) (JObj []) initial_state)
     = Inr (envelope ''HTTP Status Error: 400 - Bad field'')"
  by code_simp

text \<open>
  Claim C4 at a failing input. The GraphQL endpoint answers HTTP 400 with the JSON body
  \<^verbatim>\<open>{"errors": []}\<close>. Line 172 indexes the empty list inside the handler of
  \<^verbatim>\<open>httpx.HTTPStatusError\<close>; the \<^verbatim>\<open>IndexError\<close> is not a \<^verbatim>\<open>JSONDecodeError\<close>, and
  the \<^verbatim>\<open>except Exception\<close> clause of the same \<^verbatim>\<open>try\<close> statement does not apply to an
  exception raised in a sibling handler: the exception leaves
  \<^verbatim>\<open>make_intuit_request\<close>, and the caller receives no envelope.
\<close>

theorem status_handler_raises_on_empty_errors:
  "fst (make_intuit_request demo_cfg demo_lib
          (scripted (replies 200 token_doc) (replies 400 empty_errors_doc) (Fails ''down''))
          (JStr company_query) (JObj []) initial_state)
     = Inl (Raised IndexError ''list index out of range'')"
  by code_simp

text \<open>
  Claim C10 at a failing input. The GraphQL endpoint answers HTTP 400 with the JSON body
  \<^verbatim>\<open>{"errors": [{"code": "INVALID"}]}\<close>, whose first error has no \<^verbatim>\<open>message\<close>. The
  \<^verbatim>\<open>KeyError\<close> of line 172 does not reach the generic handler: it leaves
  \<^verbatim>\<open>make_intuit_request\<close>, and no envelope with the text
  \<^verbatim>\<open>An unexpected error occurred\<close> is returned.
\<close>

theorem status_handler_raises_on_missing_message:
  "fst (make_intuit_request demo_cfg demo_lib
          (scripted (replies 200 token_doc) (replies 400 no_message_doc) (Fails ''down''))
          (JStr company_query) (JObj []) initial_state)
     = Inl (Raised KeyError ([CHR 0x27] @ ''message'' @ [CHR 0x27]))
   \<and> fst (make_intuit_request demo_cfg demo_lib
          (scripted (replies 200 token_doc) (replies 400 no_message_doc) (Fails ''down''))
          (JStr company_query) (JObj []) initial_state)
     \<noteq> Inr (envelope (''An unexpected error occurred: '' @ [CHR 0x27] @ ''message'' @ [CHR 0x27]))"
  by code_simp

section \<open>The tool entry point: normalization and what leaves the tool\<close>

text \<open>
  The variables that leave the normalization are the ones that went in: line 321 has
  replaced \<^verbatim>\<open>None\<close> by an empty dict, so the test \<^verbatim>\<open>processed_variables is None\<close> of
  line 329 never holds. A query that does not decode to an object with a \<^verbatim>\<open>query\<close> key
  is forwarded as it is. The normalization raises exactly when \<^verbatim>\<open>json.loads\<close> raises
  something other than a \<^verbatim>\<open>JSONDecodeError\<close>.
\<close>

lemma normalize_query_variables:
  assumes "normalize_query lib query (or_empty_dict v) = Inr (q, pv)"
  shows "pv = or_empty_dict v"
  using assms
  by (cases v)
     (auto simp add: normalize_query_def or_empty_dict_def
           split: sum.splits json.splits option.splits if_splits prod.splits)

lemma raw_query_unchanged:
  assumes "normalize_query lib query pv = Inr (q, pv')"
      and "\<forall>kvs. json_loads lib query = Inr (JObj kvs) \<longrightarrow> map_of kvs ''query'' = None"
  shows "q = JStr query \<and> pv' = pv"
  using assms
  by (auto simp add: normalize_query_def
           split: sum.splits json.splits option.splits if_splits prod.splits)

lemma normalize_query_raises:
  "normalize_query lib query pv = Inl e \<longleftrightarrow>
     (\<exists>cls msg. json_loads lib query = Inl (cls, msg) \<and> cls \<noteq> JSONDecodeError \<and> e = Raised cls msg)"
  by (auto simp add: normalize_query_def
           split: sum.splits json.splits option.splits if_splits prod.splits)

text \<open>
  Claim C2 at a failing input. The query is the JSON text
  \<^verbatim>\<open>{"query": "query { company { companyName } }", "variables": {"first": 5}}\<close> and the
  \<^verbatim>\<open>variables\<close> argument is \<^verbatim>\<open>None\<close>. The nested query is sent, the nested variables
  are not: the payload carries the injected \<^verbatim>\<open>realmId\<close> only.
\<close>

theorem nested_variables_are_dropped:
  "json_loads demo_lib wrapped_query_doc
     = Inr (JObj [(''query'', JStr company_query), (''variables'', JObj [(''first'', JNum 5)])])
   \<and> sent (snd (intuit_execute_graphql demo_cfg demo_lib
        (scripted (replies 200 token_doc) (replies 200 data_doc) (Fails ''down''))
        wrapped_query_doc None initial_state))
     = [oauth_request demo_cfg,
        GraphQLPost (INTUIT_GRAPHQL_URL demo_cfg) (JStr ''tokA'')
          (JObj [(''query'', JStr company_query),
                 (''variables'', JObj [(''realmId'', JStr ''4620816365'')])])]"
  by code_simp

text \<open>
  Claim C3 at a failing input. The query is the JSON text \<^verbatim>\<open>{"query": 5}\<close> and a company
  identifier is configured. \<^verbatim>\<open>make_intuit_request\<close> turns the \<^verbatim>\<open>TypeError\<close> of line 142
  into an envelope; line 352 then calls \<^verbatim>\<open>.lower()\<close> on the number 5, outside every
  \<^verbatim>\<open>try\<close>, and the \<^verbatim>\<open>AttributeError\<close> leaves the tool.
\<close>

theorem tool_raises_on_non_string_nested_query:
  "fst (intuit_execute_graphql demo_cfg demo_lib
          (scripted (replies 200 token_doc) (replies 200 data_doc) (Fails ''down''))
          numeric_query_doc None initial_state)
     = Inl (Raised AttributeError ''number object has no attribute lower'')"
  by code_simp

section \<open>Start of the process: missing credentials\<close>

lemma debug_line_Inr:
  "debug_line l v = Inr x \<Longrightarrow> x \<noteq> fatal_error \<and> x \<noteq> credentials_error"
  by (cases v) (auto simp add: fatal_error_def credentials_error_def)

lemma debug_line_Inl:
  "debug_line l v = Inl e \<Longrightarrow> e = Raised TypeError ''NoneType object is not subscriptable''"
  by (cases v) auto

text \<open>
  A credential that is unset ends the process in line 21, 22 or 23, before either
  report of missing credentials; a credential that is set but empty reaches both.
\<close>

lemma unset_credential_crashes:
  assumes "INTUIT_CLIENT_ID cfg = None \<or> INTUIT_CLIENT_SECRET cfg = None \<or> INTUIT_REFRESH_TOKEN cfg = None"
  shows "snd (startup cfg is_main) = Crashed (Raised TypeError ''NoneType object is not subscriptable'')
       \<and> fatal_error \<notin> set (fst (startup cfg is_main))
       \<and> credentials_error \<notin> set (fst (startup cfg is_main))"
  using assms
  by (auto simp add: startup_def module_level_def simp del: debug_line.simps(2)
           split: sum.splits dest: debug_line_Inr debug_line_Inl)

lemma empty_credential_is_refused:
  assumes "module_level cfg = (out, None)" and "\<not> credentials_present cfg"
  shows "startup cfg True = (out @ [Stdout ''Attempting to run Intuit MCP server via stdio...'', fatal_error], Refused)"
  using assms by (simp add: startup_def)

text \<open>
  Claim C9 at a failing input. None of the three credentials is set. The debug print of
  line 21 slices \<^verbatim>\<open>None\<close>: the process ends with a \<^verbatim>\<open>TypeError\<close> and has printed
  nothing, neither the error of line 28 nor the fatal error of line 389.
\<close>

theorem unset_credentials_crash_before_report:
  "startup unset_cfg True = ([], Crashed (Raised TypeError ''NoneType object is not subscriptable''))
   \<and> \<not> List.member (fst (startup unset_cfg True)) fatal_error
   \<and> \<not> List.member (fst (startup unset_cfg True)) credentials_error"
  by code_simp

section \<open>The company identifier in the outbound variables\<close>

lemma graphql_payloads_append:
  "graphql_payloads (xs @ ys) = graphql_payloads xs @ graphql_payloads ys"
  by (induction xs rule: graphql_payloads.induct) simp_all

lemma get_access_token_sent:
  "sent (snd (get_access_token cfg lib w s)) = sent s
   \<or> sent (snd (get_access_token cfg lib w s)) = sent s @ [oauth_request cfg]"
  by (simp add: get_access_token_def read_clock_def send_def store_token_frame
           split: sum.splits reply.splits)

lemma get_access_token_clock:
  "clock_reads (snd (get_access_token cfg lib w s)) = Suc (clock_reads s)"
  by (simp add: get_access_token_def read_clock_def send_def store_token_frame
           split: sum.splits reply.splits)

lemma get_access_token_payloads:
  "graphql_payloads (sent (snd (get_access_token cfg lib w s))) = graphql_payloads (sent s)"
  using get_access_token_sent[of cfg lib w s]
  by (auto simp add: graphql_payloads_append oauth_request_def)

lemma graphql_call_payloads:
  "graphql_payloads (sent (snd (graphql_call cfg lib w query variables s))) = graphql_payloads (sent s)
   \<or> (\<exists>payload. build_payload cfg query variables = Inr payload
        \<and> graphql_payloads (sent (snd (graphql_call cfg lib w query variables s)))
            = graphql_payloads (sent s) @ [payload])"
proof -
  obtain r s1 where g: "get_access_token cfg lib w s = (r, s1)"
    by (cases "get_access_token cfg lib w s")
  with get_access_token_payloads[of cfg lib w s]
  have p: "graphql_payloads (sent s1) = graphql_payloads (sent s)" by simp
  show ?thesis
    using g p
    by (auto simp add: graphql_call_def send_def graphql_payloads_append
             split: sum.splits reply.splits)
qed

lemma make_intuit_request_state:
  "snd (make_intuit_request cfg lib w query variables s) = snd (graphql_call cfg lib w query variables s)"
  by (auto simp add: make_intuit_request_def split: prod.splits sum.splits exn.splits)

lemma rest_fallback_payloads:
  "graphql_payloads (sent (snd (rest_fallback cfg lib w result s))) = graphql_payloads (sent s)"
proof -
  obtain r s1 where g: "get_access_token cfg lib w s = (r, s1)"
    by (cases "get_access_token cfg lib w s")
  with get_access_token_payloads[of cfg lib w s]
  have p: "graphql_payloads (sent s1) = graphql_payloads (sent s)" by simp
  show ?thesis
    using g p
    by (auto simp add: rest_fallback_def send_def graphql_payloads_append
             split: sum.splits reply.splits)
qed

lemma rest_fallback_clock:
  "clock_reads (snd (rest_fallback cfg lib w result s)) = Suc (clock_reads s)"
proof -
  obtain r s1 where g: "get_access_token cfg lib w s = (r, s1)"
    by (cases "get_access_token cfg lib w s")
  with get_access_token_clock[of cfg lib w s]
  have p: "clock_reads s1 = Suc (clock_reads s)" by simp
  show ?thesis
    using g p
    by (auto simp add: rest_fallback_def send_def split: sum.splits reply.splits)
qed

lemma or_empty_dict_arg:
  "or_empty_dict (py_arg variables) = JObj (caller_variables variables)"
  by (cases variables) (auto simp add: or_empty_dict_def caller_variables_def)

lemma normalize_query_arg:
  assumes "normalize_query lib query (or_empty_dict (py_arg variables)) = Inr (q, pv)"
  shows "pv = JObj (caller_variables variables)"
  using normalize_query_variables[OF assms] by (simp add: or_empty_dict_arg)

lemma add_realm_dict:
  "add_realm cid (JObj kvs) = Inr (JObj (with_realm cid kvs))"
  by (simp add: add_realm_def with_realm_def)

lemma with_realm_idem:
  "with_realm cid (with_realm cid kvs) = with_realm cid kvs"
  by (simp add: with_realm_def update_conv')

lemma with_realm_nonempty:
  "with_realm cid kvs \<noteq> []"
  by (cases kvs) (auto simp add: with_realm_def)

lemma with_realm_lookup:
  "map_of (with_realm cid kvs) ''realmId''
     = Some (case map_of kvs ''realmId'' of None \<Rightarrow> JStr cid | Some v \<Rightarrow> v)
   \<and> (\<forall>k. k \<noteq> ''realmId'' \<longrightarrow> map_of (with_realm cid kvs) k = map_of kvs k)"
  by (auto simp add: with_realm_def update_conv')

lemma build_payload_with_realm:
  assumes "truthy_str (INTUIT_COMPANY_ID cfg)"
  shows "build_payload cfg query (JObj (with_realm (fmt_opt (INTUIT_COMPANY_ID cfg)) kvs))
           = Inr (JObj [(''query'', query),
                        (''variables'', JObj (with_realm (fmt_opt (INTUIT_COMPANY_ID cfg)) kvs))])"
  using assms
  by (simp add: build_payload_def add_realm_dict with_realm_idem with_realm_nonempty)

lemma tool_payloads:
  assumes "truthy_str (INTUIT_COMPANY_ID cfg)"
  shows "\<exists>ps. graphql_payloads (sent (snd (intuit_execute_graphql cfg lib w query variables s)))
                = graphql_payloads (sent s) @ ps
            \<and> (ps = [] \<or> (\<exists>q. ps = [JObj [(''query'', q),
                   (''variables'', JObj (with_realm (fmt_opt (INTUIT_COMPANY_ID cfg)) (caller_variables variables)))]]))"
proof (cases "normalize_query lib query (or_empty_dict (py_arg variables))")
  case (Inl e)
  then have "snd (intuit_execute_graphql cfg lib w query variables s) = s"
    by (simp add: intuit_execute_graphql_def)
  then show ?thesis by simp
next
  case (Inr p)
  obtain q pv where p: "p = (q, pv)" by (cases p)
  from normalize_query_arg[OF Inr[unfolded p]]
  have n: "normalize_query lib query (or_empty_dict (py_arg variables))
             = Inr (q, JObj (caller_variables variables))"
    using Inr p by simp
  let ?vs = "JObj (with_realm (fmt_opt (INTUIT_COMPANY_ID cfg)) (caller_variables variables))"
  let ?m = "make_intuit_request cfg lib w q ?vs s"
  have inj: "inject_realm cfg (JObj (caller_variables variables)) = Inr ?vs"
    using assms by (simp add: inject_realm_def add_realm_dict)
  have st: "snd (intuit_execute_graphql cfg lib w query variables s) = snd ?m
          \<or> snd (intuit_execute_graphql cfg lib w query variables s)
              = snd (rest_fallback cfg lib w (case fst ?m of Inr x \<Rightarrow> x | Inl e \<Rightarrow> JNull) (snd ?m))"
    using n inj
    by (cases ?m)
       (auto simp add: intuit_execute_graphql_def split: prod.splits sum.splits)
  have pm: "graphql_payloads (sent (snd ?m)) = graphql_payloads (sent s)
          \<or> graphql_payloads (sent (snd ?m)) = graphql_payloads (sent s)
               @ [JObj [(''query'', q), (''variables'', ?vs)]]"
    using graphql_call_payloads[of cfg lib w q ?vs s]
          build_payload_with_realm[OF assms, of q "caller_variables variables"]
    by (auto simp add: make_intuit_request_state)
  from st pm show ?thesis
    by (auto simp add: rest_fallback_payloads)
qed

text \<open>
  What holds of the \<^verbatim>\<open>variables\<close> argument. With a company identifier configured, a
  tool call sends at most one GraphQL request, and the payload of every GraphQL request
  it sends has a \<^verbatim>\<open>variables\<close> mapping with a \<^verbatim>\<open>realmId\<close> entry: the value the argument
  gives when it has one, the configured identifier otherwise. Every other entry of the
  argument is in the mapping unchanged, and the mapping has no further entry.
\<close>

lemma variables_argument_forwarded:
  assumes "truthy_str (INTUIT_COMPANY_ID cfg)"
  shows "\<exists>ps. graphql_payloads (sent (snd (intuit_execute_graphql cfg lib w query variables s)))
                = graphql_payloads (sent s) @ ps
            \<and> (\<forall>payload \<in> set ps. \<exists>q vs.
                  payload = JObj [(''query'', q), (''variables'', JObj vs)]
                \<and> map_of vs ''realmId''
                    = Some (case map_of (caller_variables variables) ''realmId'' of
                              None \<Rightarrow> JStr (fmt_opt (INTUIT_COMPANY_ID cfg))
                            | Some v \<Rightarrow> v)
                \<and> (\<forall>k. k \<noteq> ''realmId'' \<longrightarrow> map_of vs k = map_of (caller_variables variables) k))"
proof -
  from tool_payloads[OF assms, of lib w query variables s]
  obtain ps where ps: "graphql_payloads (sent (snd (intuit_execute_graphql cfg lib w query variables s)))
                = graphql_payloads (sent s) @ ps"
     and sh: "ps = [] \<or> (\<exists>q. ps = [JObj [(''query'', q),
                   (''variables'', JObj (with_realm (fmt_opt (INTUIT_COMPANY_ID cfg)) (caller_variables variables)))]])"
    by blast
  from sh with_realm_lookup[of "fmt_opt (INTUIT_COMPANY_ID cfg)" "caller_variables variables"]
  have "\<forall>payload \<in> set ps. \<exists>q vs.
                  payload = JObj [(''query'', q), (''variables'', JObj vs)]
                \<and> map_of vs ''realmId''
                    = Some (case map_of (caller_variables variables) ''realmId'' of
                              None \<Rightarrow> JStr (fmt_opt (INTUIT_COMPANY_ID cfg))
                            | Some v \<Rightarrow> v)
                \<and> (\<forall>k. k \<noteq> ''realmId'' \<longrightarrow> map_of vs k = map_of (caller_variables variables) k)"
    by auto
  with ps show ?thesis by blast
qed

text \<open>
  The request is sent whenever the tool obtains a token for a query that is a text, so
  the lemma above is about a request that exists.
\<close>

lemma tool_sends_graphql:
  assumes c: "truthy_str (INTUIT_COMPANY_ID cfg)"
      and n: "normalize_query lib query (or_empty_dict (py_arg variables)) = Inr (JStr q, pv)"
      and g: "get_access_token cfg lib w s = (Inr token, s1)"
  shows "graphql_payloads (sent (snd (intuit_execute_graphql cfg lib w query variables s)))
           = graphql_payloads (sent s)
             @ [JObj [(''query'', JStr q),
                      (''variables'', JObj (with_realm (fmt_opt (INTUIT_COMPANY_ID cfg))
                                              (caller_variables variables)))]]"
proof -
  let ?vs = "JObj (with_realm (fmt_opt (INTUIT_COMPANY_ID cfg)) (caller_variables variables))"
  let ?p = "JObj [(''query'', JStr q), (''variables'', ?vs)]"
  let ?m = "make_intuit_request cfg lib w (JStr q) ?vs s"
  have pv: "pv = JObj (caller_variables variables)"
    using normalize_query_arg[OF n] .
  have inj: "inject_realm cfg (JObj (caller_variables variables)) = Inr ?vs"
    using c by (simp add: inject_realm_def add_realm_dict)
  have s1: "graphql_payloads (sent s1) = graphql_payloads (sent s)"
    using get_access_token_payloads[of cfg lib w s] g by simp
  have "graphql_payloads (sent (snd (graphql_call cfg lib w (JStr q) ?vs s)))
          = graphql_payloads (sent s) @ [?p]"
    using g s1 build_payload_with_realm[OF c, of "JStr q" "caller_variables variables"]
    by (auto simp add: graphql_call_def send_def graphql_payloads_append
             split: sum.splits reply.splits)
  then have pm: "graphql_payloads (sent (snd ?m)) = graphql_payloads (sent s) @ [?p]"
    by (simp add: make_intuit_request_state)
  have st: "snd (intuit_execute_graphql cfg lib w query variables s) = snd ?m
          \<or> snd (intuit_execute_graphql cfg lib w query variables s)
              = snd (rest_fallback cfg lib w (case fst ?m of Inr x \<Rightarrow> x | Inl e \<Rightarrow> JNull) (snd ?m))"
    using n pv inj
    by (cases ?m)
       (auto simp add: intuit_execute_graphql_def split: prod.splits sum.splits)
  from st pm show ?thesis
    by (auto simp add: rest_fallback_payloads)
qed

text \<open>
  Both lemmas at work: the argument gives \<^verbatim>\<open>first\<close> and no \<^verbatim>\<open>realmId\<close>, and the one
  payload that is sent has \<^verbatim>\<open>first\<close> as given and the configured identifier.
\<close>

lemma variables_argument_forwarded_example:
  "graphql_payloads (sent (snd (intuit_execute_graphql demo_cfg demo_lib
         (scripted (replies 200 token_doc) (replies 200 data_doc) (Fails ''down''))
         ''query { customers }'' (Some [(''first'', JNum 5)]) initial_state)))
       = [JObj [(''query'', JStr ''query { customers }''),
                (''variables'', JObj [(''first'', JNum 5), (''realmId'', JStr ''4620816365'')])]]"
proof -
  let ?w = "scripted (replies 200 token_doc) (replies 200 data_doc) (Fails ''down'')"
  have c: "truthy_str (INTUIT_COMPANY_ID demo_cfg)"
    by code_simp
  have n: "normalize_query demo_lib ''query { customers }'' (or_empty_dict (py_arg (Some [(''first'', JNum 5)])))
             = Inr (JStr ''query { customers }'', JObj [(''first'', JNum 5)])"
    by code_simp
  have g: "get_access_token demo_cfg demo_lib ?w initial_state
             = (Inr (JStr ''tokA''),
                \<lparr>cache = \<lparr>access_token = JStr ''tokA'', expires_at = 1700003600\<rparr>,
                 clock_reads = 1, sent = [oauth_request demo_cfg]\<rparr>)"
    by code_simp
  have v: "with_realm (fmt_opt (INTUIT_COMPANY_ID demo_cfg)) (caller_variables (Some [(''first'', JNum 5)]))
             = [(''first'', JNum 5), (''realmId'', JStr ''4620816365'')]"
    by code_simp
  from tool_sends_graphql[OF c n g] v show ?thesis
    by (simp add: initial_state_def)
qed

text \<open>
  Claim C8 at a failing input. The caller supplies the variables inside the JSON text
  of the query,
  \<^verbatim>\<open>{"query": "query { customers }", "variables": {"realmId": "theirs", "first": 5}}\<close>,
  and the \<^verbatim>\<open>variables\<close> argument is \<^verbatim>\<open>None\<close>. The one GraphQL request that is sent has
  the configured identifier under \<^verbatim>\<open>realmId\<close>, not the caller's \<^verbatim>\<open>theirs\<close>, and it has
  no \<^verbatim>\<open>first\<close>: the nested variables are dropped by the test of line 329, which never
  holds.
\<close>

theorem wrapped_realm_id_is_replaced:
  "json_loads demo_lib wrapped_realm_doc
     = Inr (JObj [(''query'', JStr ''query { customers }''),
                  (''variables'', JObj [(''realmId'', JStr ''theirs''), (''first'', JNum 5)])])
   \<and> graphql_payloads (sent (snd (intuit_execute_graphql demo_cfg demo_lib
         (scripted (replies 200 token_doc) (replies 200 data_doc) (Fails ''down''))
         wrapped_realm_doc None initial_state)))
     = [JObj [(''query'', JStr ''query { customers }''),
              (''variables'', JObj [(''realmId'', JStr ''4620816365'')])]]"
  by code_simp

section \<open>The REST fallback\<close>

lemma make_intuit_request_result_in:
  assumes "make_intuit_request cfg lib w query variables s = (Inr result, s1)"
  shows "\<exists>b. py_in ''errors'' result = Inr b"
  using assms
  by (auto simp add: make_intuit_request_def graphql_call_def envelope_def
           split: prod.splits sum.splits exn.splits reply.splits if_splits)

lemma rest_fallback_result:
  "fst (rest_fallback cfg lib w result s) =
     (case get_access_token cfg lib w s of
        (Inl e, s1) \<Rightarrow> result
      | (Inr token, s1) \<Rightarrow>
          (case net w (length (sent s1)) (RestGet (rest_url cfg) token) of
             Fails msg \<Rightarrow> result
           | Responds r \<Rightarrow>
               if status_code r = 200 then
                 (case json_loads lib (body r) of
                    Inl msg \<Rightarrow> result
                  | Inr rest_result \<Rightarrow>
                      (case rest_mapped rest_result of Inl e \<Rightarrow> result | Inr mapped \<Rightarrow> mapped))
               else result))"
  by (auto simp add: rest_fallback_def send_def response_json_def
           split: prod.splits sum.splits reply.splits)

lemma rest_fallback_sent:
  assumes "get_access_token cfg lib w s = (Inr token, s2)"
  shows "sent (snd (rest_fallback cfg lib w result s)) = sent s2 @ [RestGet (rest_url cfg) token]"
  using assms
  by (auto simp add: rest_fallback_def send_def split: sum.splits reply.splits)

text \<open>
  The mapping of lines 369 to 378 against the object of the specification: it is built
  when the REST response is an object whose \<^verbatim>\<open>CompanyInfo\<close> is an object or is not
  there, and it raises on every other response.
\<close>

lemma rest_mapped_info:
  assumes "map_of kvs ''CompanyInfo'' = Some (JObj info)"
  shows "rest_mapped (JObj kvs) = Inr (company_object info)"
  using assms
  by (simp add: rest_mapped_def company_field_def company_object_def field_or_null_def)

lemma rest_mapped_no_info:
  assumes "map_of kvs ''CompanyInfo'' = None"
  shows "rest_mapped (JObj kvs) = Inr (company_object [])"
  using assms
  by (simp add: rest_mapped_def company_field_def company_object_def field_or_null_def)

lemma rest_mapped_raises:
  assumes "\<forall>kvs. rest_result = JObj kvs \<longrightarrow>
             map_of kvs ''CompanyInfo'' \<noteq> None
             \<and> (\<forall>info. map_of kvs ''CompanyInfo'' \<noteq> Some (JObj info))"
  shows "\<exists>e. rest_mapped rest_result = Inl e"
proof (cases rest_result)
  case (JObj kvs)
  with assms obtain v where v: "map_of kvs ''CompanyInfo'' = Some v" "\<forall>info. v \<noteq> JObj info"
    by auto
  then have "\<exists>e. py_get v ''CompanyName'' JNull = Inl e"
    by (cases v) auto
  with JObj v show ?thesis
    by (auto simp add: rest_mapped_def company_field_def)
qed (simp_all add: rest_mapped_def company_field_def)

lemma tool_after_graphql:
  assumes norm: "normalize_query lib query (or_empty_dict (py_arg variables)) = Inr (JStr q, pv)"
      and inj: "inject_realm cfg pv = Inr vars"
      and gql: "make_intuit_request cfg lib w (JStr q) vars s = (Inr result, s1)"
  shows "intuit_execute_graphql cfg lib w query variables s =
           (if py_in ''errors'' result = Inr True \<and> truthy_str (INTUIT_COMPANY_ID cfg)
               \<and> str_contains (map lower_char q) ''company''
               \<and> str_contains (map lower_char q) ''companyname''
            then (Inr (json_dumps lib (fst (rest_fallback cfg lib w result s1))),
                  snd (rest_fallback cfg lib w result s1))
            else (Inr (json_dumps lib result), s1))"
proof -
  from make_intuit_request_result_in[OF gql] obtain b where b: "py_in ''errors'' result = Inr b"
    by blast
  show ?thesis
    using norm inj gql b
    by (cases "rest_fallback cfg lib w result s1")
       (simp add: intuit_execute_graphql_def)
qed

text \<open>
  Claim C7. Take a tool call whose normalized query is a text \<open>q\<close> and whose GraphQL
  call came back with \<open>result\<close>, in the state \<open>s1\<close>. The fallback is wanted when
  \<^verbatim>\<open>"errors" in result\<close> holds (for an object: it has the key), a company identifier is
  configured, and the lower-cased \<open>q\<close> contains \<^verbatim>\<open>company\<close> and \<^verbatim>\<open>companyname\<close>. The
  REST call is answered with \<open>kvs\<close> when a token is obtained and the GET to the
  company-info URL comes back with status 200 and a body that decodes to the object
  \<open>kvs\<close>.
  \<^item> The fallback is attempted (the tool asks for a token once more, which reads the
    clock) if and only if it is wanted; when it is not, the tool returns the
    serialized \<open>result\<close> and does nothing else.
  \<^item> When it is wanted and a token is obtained, one GET goes to the company-info URL.
  \<^item> When it is wanted and the REST call is answered with an object whose
    \<^verbatim>\<open>CompanyInfo\<close> is an object \<open>info\<close>, the tool returns the serialized object of the
    specification for \<open>info\<close>: \<^verbatim>\<open>companyName\<close>, \<^verbatim>\<open>legalName\<close> and \<^verbatim>\<open>companyAddr\<close> as
    \<open>info\<close> gives them, and the note. When the object has no \<^verbatim>\<open>CompanyInfo\<close>, the three
    are \<^verbatim>\<open>None\<close>.
  \<^item> On every other outcome of a wanted fallback (no token, a transport failure, a
    status other than 200, a body that \<^verbatim>\<open>json.loads\<close> rejects, that is not an object or
    whose \<^verbatim>\<open>CompanyInfo\<close> is not an object) the tool returns the serialized original
    \<open>result\<close>.
\<close>

theorem rest_fallback_policy:
  assumes norm: "normalize_query lib query (or_empty_dict (py_arg variables)) = Inr (JStr q, pv)"
      and inj: "inject_realm cfg pv = Inr vars"
      and gql: "make_intuit_request cfg lib w (JStr q) vars s = (Inr result, s1)"
  defines "wanted \<equiv> py_in ''errors'' result = Inr True \<and> truthy_str (INTUIT_COMPANY_ID cfg)
                      \<and> str_contains (map lower_char q) ''company''
                      \<and> str_contains (map lower_char q) ''companyname''"
  defines "answered \<equiv> \<lambda>kvs. \<exists>token s2 r.
                      get_access_token cfg lib w s1 = (Inr token, s2)
                    \<and> net w (length (sent s2)) (RestGet (rest_url cfg) token) = Responds r
                    \<and> status_code r = 200
                    \<and> json_loads lib (body r) = Inr (JObj kvs)"
  defines "out \<equiv> intuit_execute_graphql cfg lib w query variables s"
  shows
    "(clock_reads (snd out) = Suc (clock_reads s1)) = wanted
   \<and> (\<not> wanted \<longrightarrow> out = (Inr (json_dumps lib result), s1))
   \<and> (\<forall>token s2. wanted \<and> get_access_token cfg lib w s1 = (Inr token, s2) \<longrightarrow>
         sent (snd out) = sent s2 @ [RestGet (rest_url cfg) token])
   \<and> (\<forall>kvs info. wanted \<and> answered kvs \<and> map_of kvs ''CompanyInfo'' = Some (JObj info) \<longrightarrow>
         fst out = Inr (json_dumps lib (company_object info)))
   \<and> (\<forall>kvs. wanted \<and> answered kvs \<and> map_of kvs ''CompanyInfo'' = None \<longrightarrow>
         fst out = Inr (json_dumps lib (company_object [])))
   \<and> (wanted
       \<and> \<not> (\<exists>kvs. answered kvs
                 \<and> (map_of kvs ''CompanyInfo'' = None
                    \<or> (\<exists>info. map_of kvs ''CompanyInfo'' = Some (JObj info)))) \<longrightarrow>
         fst out = Inr (json_dumps lib result))"
proof -
  note T = tool_after_graphql[OF norm inj gql, folded wanted_def out_def]
  have 1: "(clock_reads (snd out) = Suc (clock_reads s1)) = wanted"
    using T by (simp add: rest_fallback_clock)
  have 2: "\<not> wanted \<longrightarrow> out = (Inr (json_dumps lib result), s1)"
    using T by simp
  have 3: "\<forall>token s2. wanted \<and> get_access_token cfg lib w s1 = (Inr token, s2) \<longrightarrow>
         sent (snd out) = sent s2 @ [RestGet (rest_url cfg) token]"
    using T by (simp add: rest_fallback_sent)
  have F: "fst (rest_fallback cfg lib w result s1) = mapped"
    if a: "answered kvs" and m: "rest_mapped (JObj kvs) = Inr mapped" for kvs mapped
    using a m unfolding answered_def
    by (auto simp add: rest_fallback_result)
  have 4: "\<forall>kvs info. wanted \<and> answered kvs \<and> map_of kvs ''CompanyInfo'' = Some (JObj info) \<longrightarrow>
         fst out = Inr (json_dumps lib (company_object info))"
    using T F rest_mapped_info by auto
  have 5: "\<forall>kvs. wanted \<and> answered kvs \<and> map_of kvs ''CompanyInfo'' = None \<longrightarrow>
         fst out = Inr (json_dumps lib (company_object []))"
    using T F rest_mapped_no_info by auto
  have 6: "wanted
       \<and> \<not> (\<exists>kvs. answered kvs
                 \<and> (map_of kvs ''CompanyInfo'' = None
                    \<or> (\<exists>info. map_of kvs ''CompanyInfo'' = Some (JObj info)))) \<longrightarrow>
         fst out = Inr (json_dumps lib result)"
  proof (intro impI, elim conjE)
    assume w: wanted
      and n: "\<not> (\<exists>kvs. answered kvs
                 \<and> (map_of kvs ''CompanyInfo'' = None
                    \<or> (\<exists>info. map_of kvs ''CompanyInfo'' = Some (JObj info))))"
    have "fst (rest_fallback cfg lib w result s1) = result"
    proof (cases "get_access_token cfg lib w s1")
      case (Pair tk s2)
      show ?thesis
      proof (cases tk)
        case (Inl e)
        with Pair show ?thesis by (simp add: rest_fallback_result)
      next
        case (Inr token)
        show ?thesis
        proof (cases "net w (length (sent s2)) (RestGet (rest_url cfg) token)")
          case (Fails msg)
          with Pair Inr show ?thesis by (simp add: rest_fallback_result)
        next
          case (Responds r)
          show ?thesis
          proof (cases "status_code r = 200")
            case False
            with Pair Inr Responds show ?thesis by (simp add: rest_fallback_result)
          next
            case True
            show ?thesis
            proof (cases "json_loads lib (body r)")
              case (Inl err)
              with Pair Inr Responds True show ?thesis by (simp add: rest_fallback_result)
            next
              case rest: (Inr rest_result)
              have "\<forall>kvs. rest_result = JObj kvs \<longrightarrow>
                      map_of kvs ''CompanyInfo'' \<noteq> None
                      \<and> (\<forall>info. map_of kvs ''CompanyInfo'' \<noteq> Some (JObj info))"
              proof (intro allI impI)
                fix kvs
                assume k: "rest_result = JObj kvs"
                have "answered kvs"
                  unfolding answered_def using Pair Inr Responds True rest k by auto
                with n show "map_of kvs ''CompanyInfo'' \<noteq> None
                      \<and> (\<forall>info. map_of kvs ''CompanyInfo'' \<noteq> Some (JObj info))"
                  by auto
              qed
              from rest_mapped_raises[OF this] obtain e where "rest_mapped rest_result = Inl e"
                by blast
              with Pair Inr Responds True rest show ?thesis by (simp add: rest_fallback_result)
            qed
          qed
        qed
      qed
    qed
    with T w show "fst out = Inr (json_dumps lib result)" by simp
  qed
  from 1 2 3 4 5 6 show ?thesis by blast
qed

text \<open>
  The scenario of the specification, with a REST response that gives all three
  entries: the query asks for the company name, the GraphQL request fails in transport,
  and the REST endpoint answers 200 with the company name \<^verbatim>\<open>Acme\<close>, the legal name
  \<^verbatim>\<open>Acme Corp\<close> and an address. The tool returns the object with these three and the
  note.
\<close>

theorem rest_fallback_policy_witness:
  "normalize_query demo_lib company_query (or_empty_dict (py_arg None))
     = Inr (JStr company_query, JObj [])
   \<and> inject_realm demo_cfg (JObj []) = Inr (JObj [(''realmId'', JStr ''4620816365'')])
   \<and> make_intuit_request demo_cfg demo_lib
        (scripted (replies 200 token_doc) (Fails ''timed out'') (replies 200 company_info_doc))
        (JStr company_query) (JObj [(''realmId'', JStr ''4620816365'')]) initial_state
       = (Inr (envelope ''HTTP Request Error connecting to Intuit: timed out''), after_graphql)
   \<and> str_contains (map lower_char company_query) ''companyname''
   \<and> fst (intuit_execute_graphql demo_cfg demo_lib
        (scripted (replies 200 token_doc) (Fails ''timed out'') (replies 200 company_info_doc))
        company_query None initial_state)
       = Inr (json_dumps demo_lib acme)
   \<and> json_dumps demo_lib acme = acme_doc"
proof -
  let ?w = "scripted (replies 200 token_doc) (Fails ''timed out'') (replies 200 company_info_doc)"
  let ?vars = "JObj [(''realmId'', JStr ''4620816365'')]"
  let ?result = "envelope ''HTTP Request Error connecting to Intuit: timed out''"
  let ?s2 = "after_graphql\<lparr>clock_reads := 2\<rparr>"
  let ?r = "\<lparr>status_code = 200, body = company_info_doc\<rparr>"
  let ?info = "[(''CompanyName'', JStr ''Acme''), (''LegalName'', JStr ''Acme Corp''),
                (''CompanyAddr'', JObj [(''City'', JStr ''Reno'')])]"
  let ?kvs = "[(''CompanyInfo'', JObj ?info)]"
  have norm: "normalize_query demo_lib company_query (or_empty_dict (py_arg None))
                = Inr (JStr company_query, JObj [])"
    by code_simp
  have inj: "inject_realm demo_cfg (JObj []) = Inr ?vars"
    by code_simp
  have gql: "make_intuit_request demo_cfg demo_lib ?w (JStr company_query) ?vars initial_state
               = (Inr ?result, after_graphql)"
    by code_simp
  have wanted: "py_in ''errors'' ?result = Inr True \<and> truthy_str (INTUIT_COMPANY_ID demo_cfg)
                \<and> str_contains (map lower_char company_query) ''company''
                \<and> str_contains (map lower_char company_query) ''companyname''"
    by code_simp
  have tok: "get_access_token demo_cfg demo_lib ?w after_graphql = (Inr (JStr ''tokA''), ?s2)"
    by code_simp
  have rest: "net ?w (length (sent ?s2)) (RestGet (rest_url demo_cfg) (JStr ''tokA'')) = Responds ?r"
    by code_simp
  have ok: "status_code ?r = 200" by simp
  have js: "json_loads demo_lib (body ?r) = Inr (JObj ?kvs)"
    by code_simp
  have info: "map_of ?kvs ''CompanyInfo'' = Some (JObj ?info)"
    by simp
  have obj: "company_object ?info = acme"
    by code_simp
  have dumps: "json_dumps demo_lib acme = acme_doc"
    by code_simp
  from tok rest ok js
  have answered: "\<exists>token s2 r.
                      get_access_token demo_cfg demo_lib ?w after_graphql = (Inr token, s2)
                    \<and> net ?w (length (sent s2)) (RestGet (rest_url demo_cfg) token) = Responds r
                    \<and> status_code r = 200
                    \<and> json_loads demo_lib (body r) = Inr (JObj ?kvs)"
    by blast
  from rest_fallback_policy[OF norm inj gql] wanted answered info
  have "fst (intuit_execute_graphql demo_cfg demo_lib ?w company_query None initial_state)
          = Inr (json_dumps demo_lib (company_object ?info))"
    by blast
  with obj norm inj gql wanted dumps show ?thesis by simp
qed

end
